theory Spec2Isabelle
  imports Main
begin

section \<open>The storage collaborator\<close>

text \<open>
  The services reach a relational store through a query client.  The tables are the ones
  declared in the schema of the backend plan; each row is a record, each table the list of
  its rows in insertion order.  Identifiers are strings.  Columns that no modelled
  operation reads (names, avatars, creation times) are left out.
\<close>

record User =
  u_id :: string
  u_status :: string
  u_lastSeen :: nat

record ChannelMember =
  cm_channelId :: string
  cm_userId :: string

record DirectMessage =
  dm_id :: string
  dm_user1Id :: string
  dm_user2Id :: string

record Message =
  m_id :: string
  m_content :: string
  m_type :: string
  m_channelId :: "string option"
  m_dmId :: "string option"
  m_userId :: string
  m_threadId :: "string option"
  m_edited :: bool

record Reaction =
  r_id :: string
  r_emoji :: string
  r_messageId :: string
  r_userId :: string

record Huddle =
  h_id :: string
  h_name :: "string option"
  h_channelId :: "string option"
  h_creatorId :: string
  h_status :: string
  h_endedAt :: "nat option"

record HuddleParticipant =
  hp_id :: string
  hp_huddleId :: string
  hp_userId :: string
  hp_joinedAt :: nat
  hp_leftAt :: "nat option"
  hp_audioMuted :: bool
  hp_videoOn :: bool

record database =
  users :: "User list"
  channels :: "string list"
  channelMembers :: "ChannelMember list"
  directMessages :: "DirectMessage list"
  messages :: "Message list"
  reactions :: "Reaction list"
  huddles :: "Huddle list"
  huddleParticipants :: "HuddleParticipant list"

text \<open>
  A string is truthy in the source language when it is present and not empty; this is what
  \<^verbatim>\<open>if (data.dmUserId)\<close> and \<^verbatim>\<open>data.type || 'text'\<close> test.
\<close>

fun truthy :: "string option \<Rightarrow> bool" where
  "truthy None = False"
| "truthy (Some s) = (s \<noteq> [])"

text \<open>A foreign key that may be null refers to an existing row or to none.\<close>

fun fk_opt :: "string option \<Rightarrow> string list \<Rightarrow> bool" where
  "fk_opt None ks = True"
| "fk_opt (Some k) ks = (k \<in> set ks)"

text \<open>\<^verbatim>\<open>updateMany\<close>: every row that matches is rewritten; no match is not an error.\<close>

definition updateMany :: "('a \<Rightarrow> bool) \<Rightarrow> ('a \<Rightarrow> 'a) \<Rightarrow> 'a list \<Rightarrow> 'a list" where
  "updateMany P f xs = map (\<lambda>x. if P x then f x else x) xs"

subsection \<open>Direct-message conversations\<close>

text \<open>
  \<^verbatim>\<open>directMessage.findFirst\<close> with the two orientations of the pair joined by OR.
\<close>

definition dm_matches :: "string \<Rightarrow> string \<Rightarrow> DirectMessage \<Rightarrow> bool" where
  "dm_matches a b d \<longleftrightarrow>
     (dm_user1Id d = a \<and> dm_user2Id d = b) \<or> (dm_user1Id d = b \<and> dm_user2Id d = a)"

definition directMessage_findFirst :: "string \<Rightarrow> string \<Rightarrow> database \<Rightarrow> DirectMessage option" where
  "directMessage_findFirst a b d = find (dm_matches a b) (directMessages d)"

text \<open>
  \<^verbatim>\<open>directMessage.create\<close>: the primary key is fresh, the ordered pair
  (user1Id, user2Id) is unique, both users exist; otherwise the store raises.
\<close>

definition directMessage_create ::
  "string \<Rightarrow> string \<Rightarrow> string \<Rightarrow> database \<Rightarrow> (DirectMessage \<times> database) option" where
  "directMessage_create newId a b d =
     (if newId \<in> set (map dm_id (directMessages d))
         \<or> (a, b) \<in> set (map (\<lambda>x. (dm_user1Id x, dm_user2Id x)) (directMessages d))
         \<or> a \<notin> set (map u_id (users d)) \<or> b \<notin> set (map u_id (users d))
      then None
      else let row = \<lparr>dm_id = newId, dm_user1Id = a, dm_user2Id = b\<rparr>
           in Some (row, d\<lparr>directMessages := directMessages d @ [row]\<rparr>))"

subsection \<open>Messages\<close>

record CreateMessageData =
  cmd_content :: string
  cmd_userId :: string
  cmd_channelId :: "string option"
  cmd_dmUserId :: "string option"
  cmd_threadId :: "string option"
  cmd_type :: "string option"

definition message_create ::
  "string \<Rightarrow> CreateMessageData \<Rightarrow> string option \<Rightarrow> database \<Rightarrow> (Message \<times> database) option" where
  "message_create newId data dmId d =
     (if newId \<in> set (map m_id (messages d))
         \<or> cmd_userId data \<notin> set (map u_id (users d))
         \<or> \<not> fk_opt (cmd_channelId data) (channels d)
         \<or> \<not> fk_opt dmId (map dm_id (directMessages d))
         \<or> \<not> fk_opt (cmd_threadId data) (map m_id (messages d))
      then None
      else let row = \<lparr>m_id = newId, m_content = cmd_content data,
                        m_type = (case cmd_type data of
                                    None \<Rightarrow> ''text''
                                  | Some t \<Rightarrow> if t = [] then ''text'' else t),
                        m_channelId = cmd_channelId data, m_dmId = dmId,
                        m_userId = cmd_userId data, m_threadId = cmd_threadId data,
                        m_edited = False\<rparr>
           in Some (row, d\<lparr>messages := messages d @ [row]\<rparr>))"

text \<open>
  \<^verbatim>\<open>MessageService.createMessage\<close>.  The two identifiers are the keys the store
  generates for the conversation row and the message row.  Any exception inside the body is
  caught and replaced by the error 'Failed to create message'.
\<close>

definition createMessage ::
  "CreateMessageData \<Rightarrow> string \<Rightarrow> string \<Rightarrow> database \<Rightarrow> (string + Message) \<times> database" where
  "createMessage data newDmId newMsgId d =
     (case (if truthy (cmd_dmUserId data) then cmd_dmUserId data else None) of
        Some dmUserId \<Rightarrow>
          (case directMessage_findFirst (cmd_userId data) dmUserId d of
             Some existingDm \<Rightarrow>
               (case message_create newMsgId data (Some (dm_id existingDm)) d of
                  None \<Rightarrow> (Inl ''Failed to create message'', d)
                | Some (message, d') \<Rightarrow> (Inr message, d'))
           | None \<Rightarrow>
               (case directMessage_create newDmId (cmd_userId data) dmUserId d of
                  None \<Rightarrow> (Inl ''Failed to create message'', d)
                | Some (newDm, d1) \<Rightarrow>
                    (case message_create newMsgId data (Some (dm_id newDm)) d1 of
                       None \<Rightarrow> (Inl ''Failed to create message'', d1)
                     | Some (message, d') \<Rightarrow> (Inr message, d'))))
      | None \<Rightarrow>
          (case message_create newMsgId data None d of
             None \<Rightarrow> (Inl ''Failed to create message'', d)
           | Some (message, d') \<Rightarrow> (Inr message, d')))"

text \<open>
  \<^verbatim>\<open>canUserAccessChannel\<close>: a lookup of the membership row; a failing lookup
  is answered with false, so the function never raises.
\<close>

definition canUserAccessChannel :: "string \<Rightarrow> string \<Rightarrow> database \<Rightarrow> bool" where
  "canUserAccessChannel userId channelId d \<longleftrightarrow>
     find (\<lambda>x. cm_channelId x = channelId \<and> cm_userId x = userId) (channelMembers d) \<noteq> None"

text \<open>
  \<^verbatim>\<open>deleteMessage\<close>: only the author deletes.  Deleting the row removes its
  reactions with it and clears the thread reference of its replies, as the relations of
  the schema say.
\<close>

definition message_delete :: "string \<Rightarrow> database \<Rightarrow> database" where
  "message_delete messageId d =
     d\<lparr>messages := map (\<lambda>x. if m_threadId x = Some messageId then x\<lparr>m_threadId := None\<rparr> else x)
                      (filter (\<lambda>x. m_id x \<noteq> messageId) (messages d)),
       reactions := filter (\<lambda>x. r_messageId x \<noteq> messageId) (reactions d)\<rparr>"

definition deleteMessage :: "string \<Rightarrow> string \<Rightarrow> database \<Rightarrow> (string + unit) \<times> database" where
  "deleteMessage messageId userId d =
     (case find (\<lambda>x. m_id x = messageId) (messages d) of
        None \<Rightarrow> (Inl ''Failed to delete message'', d)
      | Some message \<Rightarrow>
          if m_userId message \<noteq> userId then (Inl ''Failed to delete message'', d)
          else (Inr (), message_delete messageId d))"

subsection \<open>Reactions\<close>

text \<open>
  \<^verbatim>\<open>addReaction\<close> is an upsert on the unique key (messageId, userId, emoji) with
  an empty update: an existing row is returned as it is, a missing one is created.  The
  created row needs a fresh key, an existing message and an existing user.
\<close>

definition reaction_is :: "string \<Rightarrow> string \<Rightarrow> string \<Rightarrow> Reaction \<Rightarrow> bool" where
  "reaction_is messageId userId emoji x \<longleftrightarrow>
     r_messageId x = messageId \<and> r_userId x = userId \<and> r_emoji x = emoji"

definition addReaction ::
  "string \<Rightarrow> string \<Rightarrow> string \<Rightarrow> string \<Rightarrow> database \<Rightarrow> (string + Reaction) \<times> database" where
  "addReaction messageId userId emoji newId d =
     (case find (reaction_is messageId userId emoji) (reactions d) of
        Some reaction \<Rightarrow> (Inr reaction, d)
      | None \<Rightarrow>
          if newId \<in> set (map r_id (reactions d))
             \<or> messageId \<notin> set (map m_id (messages d))
             \<or> userId \<notin> set (map u_id (users d))
          then (Inl ''Failed to add reaction'', d)
          else let row = \<lparr>r_id = newId, r_emoji = emoji, r_messageId = messageId,
                            r_userId = userId\<rparr>
               in (Inr row, d\<lparr>reactions := reactions d @ [row]\<rparr>))"

text \<open>
  \<^verbatim>\<open>removeReaction\<close> deletes by the unique key.  The store's single-row delete
  raises when no row has the key; the service turns that into 'Failed to remove reaction'.
\<close>

definition removeReaction ::
  "string \<Rightarrow> string \<Rightarrow> string \<Rightarrow> database \<Rightarrow> (string + unit) \<times> database" where
  "removeReaction messageId userId emoji d =
     (case find (reaction_is messageId userId emoji) (reactions d) of
        None \<Rightarrow> (Inl ''Failed to remove reaction'', d)
      | Some reaction \<Rightarrow>
          (Inr (), d\<lparr>reactions := filter (\<lambda>x. \<not> reaction_is messageId userId emoji x)
                                          (reactions d)\<rparr>))"

subsection \<open>Huddles\<close>

text \<open>
  A participant row is unique per (huddleId, userId) and refers to an existing huddle and
  an existing user.  A null \<^verbatim>\<open>leftAt\<close> is \<open>None\<close>: the participant is active.
\<close>

definition participant_is :: "string \<Rightarrow> string \<Rightarrow> HuddleParticipant \<Rightarrow> bool" where
  "participant_is huddleId userId x \<longleftrightarrow> hp_huddleId x = huddleId \<and> hp_userId x = userId"

definition active_in :: "string \<Rightarrow> HuddleParticipant \<Rightarrow> bool" where
  "active_in huddleId x \<longleftrightarrow> hp_huddleId x = huddleId \<and> hp_leftAt x = None"

definition huddleParticipant_create ::
  "string \<Rightarrow> string \<Rightarrow> string \<Rightarrow> nat \<Rightarrow> database \<Rightarrow> (HuddleParticipant \<times> database) option" where
  "huddleParticipant_create newId huddleId userId now d =
     (if newId \<in> set (map hp_id (huddleParticipants d))
         \<or> find (participant_is huddleId userId) (huddleParticipants d) \<noteq> None
         \<or> huddleId \<notin> set (map h_id (huddles d))
         \<or> userId \<notin> set (map u_id (users d))
      then None
      else let row = \<lparr>hp_id = newId, hp_huddleId = huddleId, hp_userId = userId,
                        hp_joinedAt = now, hp_leftAt = None, hp_audioMuted = False,
                        hp_videoOn = False\<rparr>
           in Some (row, d\<lparr>huddleParticipants := huddleParticipants d @ [row]\<rparr>))"

text \<open>
  \<^verbatim>\<open>HuddleService.joinHuddle\<close>: an active row is returned as it is, a row that
  was left is reactivated, otherwise a row is created.  The huddle row itself is not read.
\<close>

definition joinHuddle ::
  "string \<Rightarrow> string \<Rightarrow> nat \<Rightarrow> string \<Rightarrow> database \<Rightarrow> (string + HuddleParticipant) \<times> database" where
  "joinHuddle huddleId userId now newId d =
     (case find (participant_is huddleId userId) (huddleParticipants d) of
        Some existingParticipant \<Rightarrow>
          (case hp_leftAt existingParticipant of
             None \<Rightarrow> (Inr existingParticipant, d)
           | Some t \<Rightarrow>
               let participant = existingParticipant\<lparr>hp_leftAt := None, hp_joinedAt := now,
                                   hp_audioMuted := False, hp_videoOn := False\<rparr>
               in (Inr participant,
                   d\<lparr>huddleParticipants :=
                        updateMany (\<lambda>x. hp_id x = hp_id existingParticipant) (\<lambda>x. participant)
                          (huddleParticipants d)\<rparr>))
      | None \<Rightarrow>
          (case huddleParticipant_create newId huddleId userId now d of
             None \<Rightarrow> (Inl ''Failed to join huddle'', d)
           | Some (participant, d') \<Rightarrow> (Inr participant, d')))"

text \<open>
  \<^verbatim>\<open>HuddleService.leaveHuddle\<close>: the active rows of the user are stamped; when
  no active row of the huddle is left, the huddle is ended.  The two writes are separate
  statements: when the second one raises (no such huddle), the first one stays.
\<close>

definition huddle_end_row :: "nat \<Rightarrow> Huddle \<Rightarrow> Huddle" where
  "huddle_end_row now h = h\<lparr>h_status := ''ended'', h_endedAt := Some now\<rparr>"

definition mark_left :: "nat \<Rightarrow> HuddleParticipant \<Rightarrow> HuddleParticipant" where
  "mark_left now x = x\<lparr>hp_leftAt := Some now\<rparr>"

definition leaveHuddle :: "string \<Rightarrow> string \<Rightarrow> nat \<Rightarrow> database \<Rightarrow> (string + unit) \<times> database" where
  "leaveHuddle huddleId userId now d =
     (let d1 = d\<lparr>huddleParticipants :=
                   updateMany (\<lambda>x. participant_is huddleId userId x \<and> hp_leftAt x = None)
                     (mark_left now) (huddleParticipants d)\<rparr>;
          activeParticipants = length (filter (active_in huddleId) (huddleParticipants d1))
      in if activeParticipants = 0 then
           (if huddleId \<in> set (map h_id (huddles d1))
            then (Inr (), d1\<lparr>huddles := updateMany (\<lambda>h. h_id h = huddleId) (huddle_end_row now)
                                            (huddles d1)\<rparr>)
            else (Inl ''Failed to leave huddle'', d1))
         else (Inr (), d1))"

text \<open>\<^verbatim>\<open>HuddleService.endHuddle\<close>: only the creator ends a huddle.\<close>

definition endHuddle :: "string \<Rightarrow> string \<Rightarrow> nat \<Rightarrow> database \<Rightarrow> (string + unit) \<times> database" where
  "endHuddle huddleId userId now d =
     (case find (\<lambda>h. h_id h = huddleId) (huddles d) of
        None \<Rightarrow> (Inl ''Failed to end huddle'', d)
      | Some huddle \<Rightarrow>
          if h_creatorId huddle \<noteq> userId then (Inl ''Failed to end huddle'', d)
          else (Inr (),
                d\<lparr>huddles := updateMany (\<lambda>h. h_id h = huddleId) (huddle_end_row now) (huddles d),
                  huddleParticipants :=
                    updateMany (active_in huddleId) (mark_left now) (huddleParticipants d)\<rparr>))"

text \<open>
  \<^verbatim>\<open>HuddleService.createHuddle\<close>: the huddle row is created active (its channel,
  when given, must exist), then the creator joins through \<^verbatim>\<open>joinHuddle\<close>.  The
  row is returned as it was created.
\<close>

record CreateHuddleData =
  chd_creatorId :: string
  chd_channelId :: "string option"
  chd_name :: "string option"

definition createHuddle ::
  "CreateHuddleData \<Rightarrow> nat \<Rightarrow> string \<Rightarrow> string \<Rightarrow> database \<Rightarrow> (string + Huddle) \<times> database" where
  "createHuddle data now newHuddleId newParticipantId d =
     (if newHuddleId \<in> set (map h_id (huddles d)) \<or> \<not> fk_opt (chd_channelId data) (channels d)
      then (Inl ''Failed to create huddle'', d)
      else let huddle = \<lparr>h_id = newHuddleId, h_name = chd_name data,
                           h_channelId = chd_channelId data, h_creatorId = chd_creatorId data,
                           h_status = ''active'', h_endedAt = None\<rparr>;
               d1 = d\<lparr>huddles := huddles d @ [huddle]\<rparr>
           in case joinHuddle newHuddleId (chd_creatorId data) now newParticipantId d1 of
                (Inl e, d2) \<Rightarrow> (Inl ''Failed to create huddle'', d2)
              | (Inr participant, d2) \<Rightarrow> (Inr huddle, d2))"

definition getHuddleParticipants :: "string \<Rightarrow> database \<Rightarrow> HuddleParticipant list" where
  "getHuddleParticipants huddleId d = filter (active_in huddleId) (huddleParticipants d)"

subsection \<open>Users\<close>

text \<open>\<^verbatim>\<open>user.update\<close> by id: raises when no user has the id.\<close>

definition user_update :: "string \<Rightarrow> string \<Rightarrow> nat \<Rightarrow> database \<Rightarrow> database option" where
  "user_update userId status now d =
     (if userId \<in> set (map u_id (users d))
      then Some (d\<lparr>users := updateMany (\<lambda>u. u_id u = userId)
                               (\<lambda>u. u\<lparr>u_status := status, u_lastSeen := now\<rparr>) (users d)\<rparr>)
      else None)"

section \<open>The socket server\<close>

text \<open>
  The events the server sends.  A negotiation payload (offer, answer, candidate) is opaque
  to the server; it is carried as the text it arrived as.
\<close>

datatype event =
    Error string
  | NewMessage Message
  | MessageDeleted string
  | ReactionAdded string Reaction
  | ReactionRemoved string string string
  | UserStatusChanged string string
  | UserJoinedHuddle string HuddleParticipant
  | HuddleParticipants string "HuddleParticipant list"
  | UserLeftHuddle string string
  | HuddleEnded string
  | HuddleCreated Huddle
  | WebrtcOffer string string string
  | WebrtcAnswer string string string
  | WebrtcIceCandidate string string string

record AuthenticatedSocket =
  sock_id :: string
  userId :: string
  username :: string

text \<open>
  The state of the process: the store, the live connections (socket id to the identity
  bound at the handshake), the room membership kept by the socket library as pairs
  (socket id, room), and for every socket the events delivered to it so far.
\<close>

record server =
  db :: database
  conns :: "string \<rightharpoonup> string"
  rooms :: "(string \<times> string) set"
  outbox :: "string \<Rightarrow> event list"

definition deliver :: "(string \<Rightarrow> bool) \<Rightarrow> event \<Rightarrow> server \<Rightarrow> server" where
  "deliver to ev st = st\<lparr>outbox := (\<lambda>s. if to s then outbox st s @ [ev] else outbox st s)\<rparr>"

text \<open>\<^verbatim>\<open>io.emit\<close>: every live connection.\<close>

definition io_emit :: "event \<Rightarrow> server \<Rightarrow> server" where
  "io_emit ev st = deliver (\<lambda>s. conns st s \<noteq> None) ev st"

text \<open>\<^verbatim>\<open>io.to(room).emit\<close>: every live connection in the room.\<close>

definition io_to_emit :: "string \<Rightarrow> event \<Rightarrow> server \<Rightarrow> server" where
  "io_to_emit room ev st = deliver (\<lambda>s. conns st s \<noteq> None \<and> (s, room) \<in> rooms st) ev st"

text \<open>\<^verbatim>\<open>socket.emit\<close>: this connection only.\<close>

definition socket_emit :: "AuthenticatedSocket \<Rightarrow> event \<Rightarrow> server \<Rightarrow> server" where
  "socket_emit socket ev st = deliver (\<lambda>s. s = sock_id socket) ev st"

text \<open>\<^verbatim>\<open>socket.to(room).emit\<close>: the room, without this connection.\<close>

definition socket_to_emit :: "AuthenticatedSocket \<Rightarrow> string \<Rightarrow> event \<Rightarrow> server \<Rightarrow> server" where
  "socket_to_emit socket room ev st =
     deliver (\<lambda>s. s \<noteq> sock_id socket \<and> conns st s \<noteq> None \<and> (s, room) \<in> rooms st) ev st"

text \<open>\<^verbatim>\<open>socket.broadcast.emit\<close>: every live connection but this one.\<close>

definition socket_broadcast_emit :: "AuthenticatedSocket \<Rightarrow> event \<Rightarrow> server \<Rightarrow> server" where
  "socket_broadcast_emit socket ev st =
     deliver (\<lambda>s. s \<noteq> sock_id socket \<and> conns st s \<noteq> None) ev st"

definition socket_join :: "AuthenticatedSocket \<Rightarrow> string \<Rightarrow> server \<Rightarrow> server" where
  "socket_join socket room st = st\<lparr>rooms := insert (sock_id socket, room) (rooms st)\<rparr>"

definition socket_leave :: "AuthenticatedSocket \<Rightarrow> string \<Rightarrow> server \<Rightarrow> server" where
  "socket_leave socket room st = st\<lparr>rooms := rooms st - {(sock_id socket, room)}\<rparr>"

subsection \<open>Connection lifecycle\<close>

text \<open>
  \<^verbatim>\<open>io.on('connection')\<close>: the socket library puts every new socket into the room
  named by its own id; the handler adds the room named by the user id.  The listener that
  would set the status to online is registered on the server-side socket for an event the
  library never delivers there, so the store is not touched.
\<close>

definition on_connection :: "AuthenticatedSocket \<Rightarrow> server \<Rightarrow> server" where
  "on_connection socket st =
     socket_join socket (userId socket)
       (st\<lparr>conns := (conns st)(sock_id socket \<mapsto> userId socket),
           rooms := insert (sock_id socket, sock_id socket) (rooms st)\<rparr>)"

text \<open>
  \<^verbatim>\<open>disconnect\<close>: the library has taken the socket out of every room and out of
  the live connections when the listeners run.  Two listeners are registered: the one of
  the presence handlers, and one that writes a log line.
\<close>

definition on_disconnect :: "AuthenticatedSocket \<Rightarrow> nat \<Rightarrow> server \<Rightarrow> server" where
  "on_disconnect socket now st =
     (let st1 = st\<lparr>conns := (conns st)(sock_id socket := None),
                   rooms := Set.filter (\<lambda>x. fst x \<noteq> sock_id socket) (rooms st)\<rparr>
      in case user_update (userId socket) ''offline'' now (db st1) of
           None \<Rightarrow> st1
         | Some d' \<Rightarrow>
             socket_broadcast_emit socket (UserStatusChanged (userId socket) ''offline'')
               (st1\<lparr>db := d'\<rparr>))"

subsection \<open>Message handlers\<close>

definition on_join_channel :: "AuthenticatedSocket \<Rightarrow> string \<Rightarrow> server \<Rightarrow> server" where
  "on_join_channel socket channelId st =
     (if canUserAccessChannel (userId socket) channelId (db st)
      then socket_join socket channelId st
      else st)"

definition on_leave_channel :: "AuthenticatedSocket \<Rightarrow> string \<Rightarrow> server \<Rightarrow> server" where
  "on_leave_channel socket channelId st = socket_leave socket channelId st"

record SendMessageData =
  sm_content :: string
  sm_channelId :: "string option"
  sm_dmUserId :: "string option"
  sm_threadId :: "string option"

definition on_send_message ::
  "AuthenticatedSocket \<Rightarrow> SendMessageData \<Rightarrow> string \<Rightarrow> string \<Rightarrow> server \<Rightarrow> server" where
  "on_send_message socket data newDmId newMsgId st =
     (case createMessage \<lparr>cmd_content = sm_content data, cmd_userId = userId socket,
                           cmd_channelId = sm_channelId data, cmd_dmUserId = sm_dmUserId data,
                           cmd_threadId = sm_threadId data, cmd_type = None\<rparr>
             newDmId newMsgId (db st) of
        (Inl e, d') \<Rightarrow> socket_emit socket (Error ''Failed to send message'') (st\<lparr>db := d'\<rparr>)
      | (Inr message, d') \<Rightarrow>
          (case (if truthy (sm_channelId data) then sm_channelId data else None) of
             Some channelId \<Rightarrow> io_to_emit channelId (NewMessage message) (st\<lparr>db := d'\<rparr>)
           | None \<Rightarrow>
               (case (if truthy (sm_dmUserId data) then sm_dmUserId data else None) of
                  Some dmUserId \<Rightarrow>
                    io_to_emit dmUserId (NewMessage message)
                      (io_to_emit (userId socket) (NewMessage message) (st\<lparr>db := d'\<rparr>))
                | None \<Rightarrow> st\<lparr>db := d'\<rparr>)))"

definition on_delete_message :: "AuthenticatedSocket \<Rightarrow> string \<Rightarrow> server \<Rightarrow> server" where
  "on_delete_message socket messageId st =
     (case deleteMessage messageId (userId socket) (db st) of
        (Inl e, d') \<Rightarrow> socket_emit socket (Error ''Failed to delete message'') (st\<lparr>db := d'\<rparr>)
      | (Inr ok, d') \<Rightarrow> io_emit (MessageDeleted messageId) (st\<lparr>db := d'\<rparr>))"

definition on_add_reaction ::
  "AuthenticatedSocket \<Rightarrow> string \<Rightarrow> string \<Rightarrow> string \<Rightarrow> server \<Rightarrow> server" where
  "on_add_reaction socket messageId emoji newId st =
     (case addReaction messageId (userId socket) emoji newId (db st) of
        (Inl e, d') \<Rightarrow> socket_emit socket (Error ''Failed to add reaction'') (st\<lparr>db := d'\<rparr>)
      | (Inr reaction, d') \<Rightarrow> io_emit (ReactionAdded messageId reaction) (st\<lparr>db := d'\<rparr>))"

definition on_remove_reaction ::
  "AuthenticatedSocket \<Rightarrow> string \<Rightarrow> string \<Rightarrow> server \<Rightarrow> server" where
  "on_remove_reaction socket messageId emoji st =
     (case removeReaction messageId (userId socket) emoji (db st) of
        (Inl e, d') \<Rightarrow> socket_emit socket (Error ''Failed to remove reaction'') (st\<lparr>db := d'\<rparr>)
      | (Inr ok, d') \<Rightarrow>
          io_emit (ReactionRemoved messageId (userId socket) emoji) (st\<lparr>db := d'\<rparr>))"

subsection \<open>Huddle handlers\<close>

definition huddle_room :: "string \<Rightarrow> string" where
  "huddle_room huddleId = ''huddle:'' @ huddleId"

definition on_create_huddle ::
  "AuthenticatedSocket \<Rightarrow> string option \<Rightarrow> string option \<Rightarrow> nat \<Rightarrow> string \<Rightarrow> string \<Rightarrow>
     server \<Rightarrow> server" where
  "on_create_huddle socket channelId name now newHuddleId newParticipantId st =
     (case createHuddle \<lparr>chd_creatorId = userId socket, chd_channelId = channelId,
                          chd_name = name\<rparr> now newHuddleId newParticipantId (db st) of
        (Inl e, d') \<Rightarrow> socket_emit socket (Error ''Failed to create huddle'') (st\<lparr>db := d'\<rparr>)
      | (Inr huddle, d') \<Rightarrow>
          (let st1 = socket_join socket (huddle_room (h_id huddle)) (st\<lparr>db := d'\<rparr>)
           in case (if truthy channelId then channelId else None) of
                Some c \<Rightarrow> io_to_emit c (HuddleCreated huddle) st1
              | None \<Rightarrow> io_emit (HuddleCreated huddle) st1))"

definition on_join_huddle ::
  "AuthenticatedSocket \<Rightarrow> string \<Rightarrow> nat \<Rightarrow> string \<Rightarrow> server \<Rightarrow> server" where
  "on_join_huddle socket huddleId now newId st =
     (case joinHuddle huddleId (userId socket) now newId (db st) of
        (Inl e, d') \<Rightarrow> socket_emit socket (Error ''Failed to join huddle'') (st\<lparr>db := d'\<rparr>)
      | (Inr participant, d') \<Rightarrow>
          socket_emit socket (HuddleParticipants huddleId (getHuddleParticipants huddleId d'))
            (socket_to_emit socket (huddle_room huddleId) (UserJoinedHuddle huddleId participant)
              (socket_join socket (huddle_room huddleId) (st\<lparr>db := d'\<rparr>))))"

definition on_leave_huddle :: "AuthenticatedSocket \<Rightarrow> string \<Rightarrow> nat \<Rightarrow> server \<Rightarrow> server" where
  "on_leave_huddle socket huddleId now st =
     (case leaveHuddle huddleId (userId socket) now (db st) of
        (Inl e, d') \<Rightarrow> socket_emit socket (Error ''Failed to leave huddle'') (st\<lparr>db := d'\<rparr>)
      | (Inr ok, d') \<Rightarrow>
          socket_to_emit socket (huddle_room huddleId) (UserLeftHuddle huddleId (userId socket))
            (socket_leave socket (huddle_room huddleId) (st\<lparr>db := d'\<rparr>)))"

definition on_end_huddle :: "AuthenticatedSocket \<Rightarrow> string \<Rightarrow> nat \<Rightarrow> server \<Rightarrow> server" where
  "on_end_huddle socket huddleId now st =
     (case endHuddle huddleId (userId socket) now (db st) of
        (Inl e, d') \<Rightarrow> socket_emit socket (Error ''Failed to end huddle'') (st\<lparr>db := d'\<rparr>)
      | (Inr ok, d') \<Rightarrow>
          (let st1 = io_to_emit (huddle_room huddleId) (HuddleEnded huddleId) (st\<lparr>db := d'\<rparr>)
           in st1\<lparr>rooms := Set.filter (\<lambda>x. snd x \<noteq> huddle_room huddleId) (rooms st1)\<rparr>))"

text \<open>The three signaling listeners: no store access, no check, one emit each.\<close>

definition on_webrtc_offer ::
  "AuthenticatedSocket \<Rightarrow> string \<Rightarrow> string \<Rightarrow> string \<Rightarrow> server \<Rightarrow> server" where
  "on_webrtc_offer socket huddleId targetUserId offer st =
     socket_to_emit socket targetUserId (WebrtcOffer huddleId (userId socket) offer) st"

definition on_webrtc_answer ::
  "AuthenticatedSocket \<Rightarrow> string \<Rightarrow> string \<Rightarrow> string \<Rightarrow> server \<Rightarrow> server" where
  "on_webrtc_answer socket huddleId targetUserId answer st =
     socket_to_emit socket targetUserId (WebrtcAnswer huddleId (userId socket) answer) st"

definition on_webrtc_ice_candidate ::
  "AuthenticatedSocket \<Rightarrow> string \<Rightarrow> string \<Rightarrow> string \<Rightarrow> server \<Rightarrow> server" where
  "on_webrtc_ice_candidate socket huddleId targetUserId candidate st =
     socket_to_emit socket targetUserId (WebrtcIceCandidate huddleId (userId socket) candidate) st"

section \<open>The find-or-create of a conversation, one store call at a time\<close>

text \<open>
  \<^verbatim>\<open>createMessage\<close> awaits the store up to three times: the lookup of the
  conversation, its creation when the lookup found none, and the creation of the message.
  Between two awaits of one call the process runs the listeners of other connections.  A
  task is a call of \<^verbatim>\<open>createMessage\<close> suspended at one of its awaits.
\<close>

datatype task =
    AwaitFind string
  | AwaitDmCreate string
  | AwaitMessageCreate "string option"
  | Finished "string + Message"

record request =
  rq_data :: CreateMessageData
  rq_newDmId :: string
  rq_newMsgId :: string

definition createMessage_start :: "request \<Rightarrow> task" where
  "createMessage_start rq =
     (case (if truthy (cmd_dmUserId (rq_data rq)) then cmd_dmUserId (rq_data rq) else None) of
        Some dmUserId \<Rightarrow> AwaitFind dmUserId
      | None \<Rightarrow> AwaitMessageCreate None)"

fun createMessage_step :: "request \<Rightarrow> task \<Rightarrow> database \<Rightarrow> task \<times> database" where
  "createMessage_step rq (AwaitFind dmUserId) d =
     (case directMessage_findFirst (cmd_userId (rq_data rq)) dmUserId d of
        Some existingDm \<Rightarrow> (AwaitMessageCreate (Some (dm_id existingDm)), d)
      | None \<Rightarrow> (AwaitDmCreate dmUserId, d))"
| "createMessage_step rq (AwaitDmCreate dmUserId) d =
     (case directMessage_create (rq_newDmId rq) (cmd_userId (rq_data rq)) dmUserId d of
        None \<Rightarrow> (Finished (Inl ''Failed to create message''), d)
      | Some (newDm, d1) \<Rightarrow> (AwaitMessageCreate (Some (dm_id newDm)), d1))"
| "createMessage_step rq (AwaitMessageCreate dmId) d =
     (case message_create (rq_newMsgId rq) (rq_data rq) dmId d of
        None \<Rightarrow> (Finished (Inl ''Failed to create message''), d)
      | Some (message, d') \<Rightarrow> (Finished (Inr message), d'))"
| "createMessage_step rq (Finished r) d = (Finished r, d)"

text \<open>One call run alone: its awaits follow each other with nothing in between.\<close>

definition createMessage_alone :: "request \<Rightarrow> database \<Rightarrow> task \<times> database" where
  "createMessage_alone rq d =
     (let (t1, d1) = createMessage_step rq (createMessage_start rq) d;
          (t2, d2) = createMessage_step rq t1 d1
      in createMessage_step rq t2 d2)"

text \<open>
  Two calls in flight: the schedule says, for each store call that completes, whether it
  belongs to the first call (\<open>False\<close>) or to the second (\<open>True\<close>).
\<close>

fun interleave ::
  "bool list \<Rightarrow> request \<Rightarrow> request \<Rightarrow> (task \<times> task) \<times> database \<Rightarrow> (task \<times> task) \<times> database" where
  "interleave [] rq1 rq2 s = s"
| "interleave (False # sched) rq1 rq2 ((t1, t2), d) =
     (let (t1', d') = createMessage_step rq1 t1 d in interleave sched rq1 rq2 ((t1', t2), d'))"
| "interleave (True # sched) rq1 rq2 ((t1, t2), d) =
     (let (t2', d') = createMessage_step rq2 t2 d in interleave sched rq1 rq2 ((t1, t2'), d'))"

text \<open>The conversations of an unordered pair of users.\<close>

definition conversations_of :: "string \<Rightarrow> string \<Rightarrow> database \<Rightarrow> DirectMessage list" where
  "conversations_of a b d = filter (dm_matches a b) (directMessages d)"

definition pair_unique :: "database \<Rightarrow> bool" where
  "pair_unique d \<longleftrightarrow> distinct (map (\<lambda>x. {dm_user1Id x, dm_user2Id x}) (directMessages d))"

definition reactions_unique :: "database \<Rightarrow> bool" where
  "reactions_unique d \<longleftrightarrow>
     distinct (map (\<lambda>x. (r_messageId x, r_userId x, r_emoji x)) (reactions d))"

section \<open>A small workspace\<close>

text \<open>
  Three users; A and B are members of the channel general, C is not.  A is connected
  twice (two devices).
\<close>

definition user_row :: "string \<Rightarrow> User" where
  "user_row uid = \<lparr>u_id = uid, u_status = ''online'', u_lastSeen = 0\<rparr>"

definition db0 :: database where
  "db0 = \<lparr>users = [user_row ''A'', user_row ''B'', user_row ''C''],
          channels = [''general''],
          channelMembers = [\<lparr>cm_channelId = ''general'', cm_userId = ''A''\<rparr>,
                            \<lparr>cm_channelId = ''general'', cm_userId = ''B''\<rparr>],
          directMessages = [], messages = [], reactions = [], huddles = [],
          huddleParticipants = []\<rparr>"

definition sockA :: AuthenticatedSocket where
  "sockA = \<lparr>sock_id = ''s1'', userId = ''A'', username = ''alice''\<rparr>"

definition sockB :: AuthenticatedSocket where
  "sockB = \<lparr>sock_id = ''s2'', userId = ''B'', username = ''bob''\<rparr>"

definition sockC :: AuthenticatedSocket where
  "sockC = \<lparr>sock_id = ''s3'', userId = ''C'', username = ''carol''\<rparr>"

definition sockA2 :: AuthenticatedSocket where
  "sockA2 = \<lparr>sock_id = ''s4'', userId = ''A'', username = ''alice''\<rparr>"

definition server0 :: server where
  "server0 = \<lparr>db = db0, conns = Map.empty, rooms = {}, outbox = (\<lambda>s. [])\<rparr>"

text \<open>Everyone is connected; A (first device) and B have joined the channel.\<close>

definition server_joined :: server where
  "server_joined =
     on_join_channel sockB ''general'' (on_join_channel sockA ''general''
       (on_connection sockA2 (on_connection sockC (on_connection sockB
         (on_connection sockA server0)))))"

text \<open>A has sent hello to the channel.\<close>

definition hello :: SendMessageData where
  "hello = \<lparr>sm_content = ''hello'', sm_channelId = Some ''general'', sm_dmUserId = None,
            sm_threadId = None\<rparr>"

definition server_hello :: server where
  "server_hello = on_send_message sockA hello ''dm1'' ''m1'' server_joined"

text \<open>A has created a huddle in no channel, B has joined it.\<close>

definition server_huddle :: server where
  "server_huddle =
     on_join_huddle sockB ''h1'' 2 ''p2''
       (on_create_huddle sockA None None 1 ''h1'' ''p1'' server_joined)"

text \<open>B has reacted to the message of A.\<close>

definition server_reacted :: server where
  "server_reacted = on_add_reaction sockB ''m1'' ''thumbsup'' ''r1'' server_hello"

text \<open>A, the creator, has ended the huddle.\<close>

definition server_ended :: server where
  "server_ended = on_end_huddle sockA ''h1'' 7 server_huddle"

text \<open>The first direct messages between A and B, one in each direction.\<close>

definition first_A_to_B :: request where
  "first_A_to_B =
     \<lparr>rq_data = \<lparr>cmd_content = ''hi B'', cmd_userId = ''A'', cmd_channelId = None,
                  cmd_dmUserId = Some ''B'', cmd_threadId = None, cmd_type = None\<rparr>,
      rq_newDmId = ''dm1'', rq_newMsgId = ''m1''\<rparr>"

definition first_B_to_A :: request where
  "first_B_to_A =
     \<lparr>rq_data = \<lparr>cmd_content = ''hi A'', cmd_userId = ''B'', cmd_channelId = None,
                  cmd_dmUserId = Some ''A'', cmd_threadId = None, cmd_type = None\<rparr>,
      rq_newDmId = ''dm2'', rq_newMsgId = ''m2''\<rparr>"

section \<open>Properties\<close>

lemmas handler_defs =
  on_connection_def on_disconnect_def on_join_channel_def on_leave_channel_def
  on_send_message_def on_delete_message_def on_add_reaction_def on_remove_reaction_def
  on_create_huddle_def on_join_huddle_def on_leave_huddle_def on_end_huddle_def
  on_webrtc_offer_def on_webrtc_answer_def on_webrtc_ice_candidate_def

lemmas io_defs =
  deliver_def io_emit_def io_to_emit_def socket_emit_def socket_to_emit_def
  socket_broadcast_emit_def socket_join_def socket_leave_def

lemmas service_defs =
  createMessage_def message_create_def directMessage_create_def directMessage_findFirst_def
  dm_matches_def canUserAccessChannel_def deleteMessage_def message_delete_def
  addReaction_def removeReaction_def reaction_is_def
  createHuddle_def joinHuddle_def leaveHuddle_def endHuddle_def getHuddleParticipants_def
  huddleParticipant_create_def participant_is_def active_in_def huddle_end_row_def
  mark_left_def user_update_def updateMany_def huddle_room_def

lemmas workspace_defs =
  db0_def user_row_def sockA_def sockB_def sockC_def sockA2_def server0_def
  server_joined_def hello_def server_hello_def server_huddle_def
  server_reacted_def server_ended_def
  first_A_to_B_def first_B_to_A_def

subsection \<open>Deleting a message\<close>

text \<open>
  C10.  When \<^verbatim>\<open>delete-message\<close> succeeds, every live connection receives the
  \<^verbatim>\<open>message-deleted\<close> event with the id of the message: the event goes out through
  \<^verbatim>\<open>io.emit\<close>, so room membership plays no part, and connections outside the
  channel or conversation of the message receive it as well.
\<close>

theorem delete_message_emits_to_every_connection:
  assumes "fst (deleteMessage messageId (userId socket) (db st)) = Inr ()"
      and "conns st s \<noteq> None"
  shows "outbox (on_delete_message socket messageId st) s
           = outbox st s @ [MessageDeleted messageId]"
  using assms
  by (cases "deleteMessage messageId (userId socket) (db st)")
     (auto simp: on_delete_message_def io_emit_def deliver_def split: sum.splits)

text \<open>
  C is connected and is not in the room of the channel general; when A deletes the message
  sent there, the connection of C receives the deletion.
\<close>

theorem delete_message_emits_to_every_connection_witness:
  "fst (deleteMessage ''m1'' (userId sockA) (db server_hello)) = Inr ()
   \<and> conns server_hello ''s3'' \<noteq> None
   \<and> (''s3'', ''general'') \<notin> rooms server_hello
   \<and> outbox (on_delete_message sockA ''m1'' server_hello) ''s3''
       = outbox server_hello ''s3'' @ [MessageDeleted ''m1'']"
proof -
  have h1: "fst (deleteMessage ''m1'' (userId sockA) (db server_hello)) = Inr ()"
    by (simp add: workspace_defs handler_defs io_defs service_defs Let_def)
  have h2: "conns server_hello ''s3'' \<noteq> None"
    by (simp add: workspace_defs handler_defs io_defs service_defs Let_def)
  have h3: "(''s3'', ''general'') \<notin> rooms server_hello"
    by (simp add: workspace_defs handler_defs io_defs service_defs Let_def)
  from delete_message_emits_to_every_connection [OF h1 h2] h1 h2 h3 show ?thesis
    by blast
qed

subsection \<open>Sending a message\<close>

text \<open>
  C3.  A send-message request with an empty body is not rejected: the socket listener and
  \<^verbatim>\<open>createMessage\<close> check nothing about the body (the REST controller and the
  message schema do).  Here A sends an empty body to the channel general: the message row
  is stored and B receives it as \<^verbatim>\<open>new-message\<close>.
\<close>

theorem empty_body_is_persisted_and_broadcast:
  "messages (db (on_send_message sockA
       \<lparr>sm_content = [], sm_channelId = Some ''general'', sm_dmUserId = None,
          sm_threadId = None\<rparr> ''dm1'' ''m1'' server_joined))
     = [\<lparr>m_id = ''m1'', m_content = [], m_type = ''text'', m_channelId = Some ''general'',
          m_dmId = None, m_userId = ''A'', m_threadId = None, m_edited = False\<rparr>]
   \<and> outbox (on_send_message sockA
       \<lparr>sm_content = [], sm_channelId = Some ''general'', sm_dmUserId = None,
          sm_threadId = None\<rparr> ''dm1'' ''m1'' server_joined) ''s2''
     = [NewMessage \<lparr>m_id = ''m1'', m_content = [], m_type = ''text'',
          m_channelId = Some ''general'',
          m_dmId = None, m_userId = ''A'', m_threadId = None, m_edited = False\<rparr>]"
  by (simp add: workspace_defs handler_defs io_defs service_defs Let_def)

subsection \<open>The conversation of a pair\<close>

text \<open>
  Run alone, the three store calls of \<^verbatim>\<open>createMessage\<close> are the function
  itself, and the function keeps at most one conversation per unordered pair.
\<close>

lemma createMessage_alone_eq:
  "createMessage_alone rq d =
     (case createMessage (rq_data rq) (rq_newDmId rq) (rq_newMsgId rq) d of
        (r, d') \<Rightarrow> (Finished r, d'))"
  by (simp add: createMessage_alone_def createMessage_start_def createMessage_def
           split: option.splits prod.splits)

lemma dm_matches_pair: "dm_matches a b x \<longleftrightarrow> {dm_user1Id x, dm_user2Id x} = {a, b}"
  by (auto simp: dm_matches_def doubleton_eq_iff)

lemma message_create_directMessages:
  "message_create newId data dmId d = Some (m, d') \<Longrightarrow> directMessages d' = directMessages d"
  by (auto simp: message_create_def Let_def split: if_splits)

lemma directMessage_create_pair_unique:
  assumes "pair_unique d" and "directMessage_findFirst a b d = None"
      and "directMessage_create newId a b d = Some (row, d')"
  shows "pair_unique d'"
proof -
  let ?key = "\<lambda>x. {dm_user1Id x, dm_user2Id x}"
  from assms(2) have fresh: "{a, b} \<notin> set (map ?key (directMessages d))"
    by (auto simp: directMessage_findFirst_def find_None_iff dm_matches_pair)
  from assms(3) have rows: "directMessages d' = directMessages d @ [row]"
    and key: "?key row = {a, b}"
    by (auto simp: directMessage_create_def Let_def split: if_splits)
  from assms(1) have "distinct (map ?key (directMessages d))"
    by (simp add: pair_unique_def)
  with fresh key show ?thesis
    unfolding pair_unique_def rows by simp
qed

lemma message_create_pair_unique:
  "message_create newId data dmId d = Some (m, d') \<Longrightarrow> pair_unique d' = pair_unique d"
  by (simp add: pair_unique_def message_create_directMessages)

lemma createMessage_pair_unique:
  assumes "pair_unique d"
  shows "pair_unique (snd (createMessage data newDmId newMsgId d))"
  using assms
  by (auto simp: createMessage_def message_create_pair_unique
           split: option.splits if_splits
           dest: directMessage_create_pair_unique)

text \<open>
  C1.  Two first messages in flight at once, A to B and B to A: both lookups complete
  before either creation.  Each call finds no conversation and creates one; the unique
  key of the store is on the ordered pair and lets both rows in.  The pair ends with two
  conversation rows, and the two messages are filed under different conversations.
\<close>

theorem concurrent_first_messages_create_two_conversations:
  "(case interleave [False, True, False, True, False, True] first_A_to_B first_B_to_A
           ((createMessage_start first_A_to_B, createMessage_start first_B_to_A), db0) of
      ((t1, t2), d) \<Rightarrow>
        conversations_of ''A'' ''B'' d
          = [\<lparr>dm_id = ''dm1'', dm_user1Id = ''A'', dm_user2Id = ''B''\<rparr>,
             \<lparr>dm_id = ''dm2'', dm_user1Id = ''B'', dm_user2Id = ''A''\<rparr>]
        \<and> map m_dmId (messages d) = [Some ''dm1'', Some ''dm2'']
        \<and> \<not> pair_unique d)"
  by (simp add: workspace_defs service_defs createMessage_start_def conversations_of_def
        pair_unique_def Let_def insert_commute)

subsection \<open>Joining a channel\<close>

text \<open>
  C4, as the code has it.  A join-channel request by a user who is not a member of the
  channel changes nothing: the connection is not added to the room and no event is sent
  to anyone, the requester included.
\<close>

theorem join_channel_denied_is_silent:
  assumes "\<not> canUserAccessChannel (userId socket) channelId (db st)"
  shows "rooms (on_join_channel socket channelId st) = rooms st
         \<and> outbox (on_join_channel socket channelId st) = outbox st
         \<and> db (on_join_channel socket channelId st) = db st"
  using assms by (simp add: on_join_channel_def)

theorem join_channel_denied_is_silent_witness:
  "\<not> canUserAccessChannel (userId sockC) ''general'' (db server_joined)
   \<and> rooms (on_join_channel sockC ''general'' server_joined) = rooms server_joined
   \<and> outbox (on_join_channel sockC ''general'' server_joined) = outbox server_joined
   \<and> db (on_join_channel sockC ''general'' server_joined) = db server_joined"
proof -
  have h: "\<not> canUserAccessChannel (userId sockC) ''general'' (db server_joined)"
    by (simp add: workspace_defs handler_defs io_defs service_defs Let_def)
  from join_channel_denied_is_silent [OF h] h show ?thesis by blast
qed

text \<open>
  C is not a member of general and asks to join it: nothing has been delivered to the
  connection of C afterwards, so no error was reported to the requester.
\<close>

theorem join_channel_denied_reports_nothing:
  "\<not> canUserAccessChannel (userId sockC) ''general'' (db server_joined)
   \<and> outbox (on_join_channel sockC ''general'' server_joined) ''s3'' = []"
  by (simp add: workspace_defs handler_defs io_defs service_defs Let_def)

subsection \<open>Reactions\<close>

lemma find_reaction_None:
  "find (reaction_is m u e) (reactions d) = None \<Longrightarrow>
     (m, u, e) \<notin> set (map (\<lambda>x. (r_messageId x, r_userId x, r_emoji x)) (reactions d))"
  by (auto simp: find_None_iff reaction_is_def)

lemma addReaction_unique:
  "reactions_unique d \<Longrightarrow> reactions_unique (snd (addReaction m u e newId d))"
  by (auto simp: addReaction_def reactions_unique_def Let_def
           split: option.splits dest: find_reaction_None)

lemma removeReaction_unique:
  "reactions_unique d \<Longrightarrow> reactions_unique (snd (removeReaction m u e d))"
  by (auto simp: removeReaction_def reactions_unique_def distinct_map_filter
           split: option.splits)

lemma distinct_key_count_le_1:
  "distinct (map f xs) \<Longrightarrow> length (filter (\<lambda>x. f x = a) xs) \<le> 1"
proof (induction xs)
  case Nil
  then show ?case by simp
next
  case (Cons x xs)
  show ?case
  proof (cases "f x = a")
    case True
    with Cons.prems have "filter (\<lambda>y. f y = a) xs = []"
      by (force simp: filter_empty_conv image_iff)
    with True show ?thesis by simp
  next
    case False
    with Cons show ?thesis by simp
  qed
qed

lemma reaction_count_le_1:
  assumes "reactions_unique d"
  shows "length (filter (reaction_is m u e) (reactions d)) \<le> 1"
proof -
  let ?key = "\<lambda>x. (r_messageId x, r_userId x, r_emoji x)"
  have "filter (reaction_is m u e) (reactions d)
          = filter (\<lambda>x. ?key x = (m, u, e)) (reactions d)"
    by (rule filter_cong) (auto simp: reaction_is_def)
  moreover from assms have "length (filter (\<lambda>x. ?key x = (m, u, e)) (reactions d)) \<le> 1"
    unfolding reactions_unique_def by (rule distinct_key_count_le_1)
  ultimately show ?thesis by simp
qed

text \<open>
  C5, as the code has it, for an add or a remove that runs on its own against the store.
  In a store with at most one reaction row per (message, user, emoji), adding and
  removing keep it so.  Adding a reaction that exists returns the existing row and leaves
  the store as it is.  Removing a reaction that does not exist leaves the store as it is
  as well, but the operation fails with 'Failed to remove reaction'; the remove-reaction
  listener then sends an error event to the requester and nothing to any other
  connection.  (When the reaction exists, the listener sends the removal to every live
  connection.)
\<close>

theorem reaction_add_is_idempotent_remove_of_missing_fails:
  assumes "reactions_unique d"
  shows "reactions_unique (snd (addReaction m u e newId d))
         \<and> reactions_unique (snd (removeReaction m u e d))
         \<and> length (filter (reaction_is m u e) (reactions (snd (addReaction m u e newId d)))) \<le> 1
         \<and> (case find (reaction_is m u e) (reactions d) of
               Some r \<Rightarrow> addReaction m u e newId d = (Inr r, d)
             | None \<Rightarrow> removeReaction m u e d = (Inl ''Failed to remove reaction'', d))
         \<and> (case find (reaction_is m (userId socket) e) (reactions (db st)) of
               Some r \<Rightarrow>
                 outbox (on_remove_reaction socket m e st) s
                   = (if conns st s \<noteq> None
                      then outbox st s @ [ReactionRemoved m (userId socket) e]
                      else outbox st s)
             | None \<Rightarrow>
                 db (on_remove_reaction socket m e st) = db st
                 \<and> outbox (on_remove_reaction socket m e st) s
                     = (if s = sock_id socket
                        then outbox st s @ [Error ''Failed to remove reaction'']
                        else outbox st s))"
proof -
  have "reactions_unique (snd (addReaction m u e newId d))"
    using assms by (rule addReaction_unique)
  moreover from this
  have "length (filter (reaction_is m u e) (reactions (snd (addReaction m u e newId d)))) \<le> 1"
    by (rule reaction_count_le_1)
  moreover have "reactions_unique (snd (removeReaction m u e d))"
    using assms by (rule removeReaction_unique)
  moreover have "case find (reaction_is m u e) (reactions d) of
               Some r \<Rightarrow> addReaction m u e newId d = (Inr r, d)
             | None \<Rightarrow> removeReaction m u e d = (Inl ''Failed to remove reaction'', d)"
    by (simp add: addReaction_def removeReaction_def split: option.splits)
  moreover have "case find (reaction_is m (userId socket) e) (reactions (db st)) of
               Some r \<Rightarrow>
                 outbox (on_remove_reaction socket m e st) s
                   = (if conns st s \<noteq> None
                      then outbox st s @ [ReactionRemoved m (userId socket) e]
                      else outbox st s)
             | None \<Rightarrow>
                 db (on_remove_reaction socket m e st) = db st
                 \<and> outbox (on_remove_reaction socket m e st) s
                     = (if s = sock_id socket
                        then outbox st s @ [Error ''Failed to remove reaction'']
                        else outbox st s)"
    by (simp add: on_remove_reaction_def removeReaction_def io_emit_def socket_emit_def
          deliver_def split: option.splits cong: if_cong)
  ultimately show ?thesis by blast
qed

text \<open>
  B has reacted with thumbsup: adding it again returns the row r1 and changes nothing.
  C has not reacted: removing the reaction of C fails and changes nothing, the connection
  of C receives the error and the connection of A receives nothing.
\<close>

theorem reaction_add_is_idempotent_remove_of_missing_fails_witness:
  "reactions_unique (db server_reacted)
   \<and> addReaction ''m1'' ''B'' ''thumbsup'' ''r2'' (db server_reacted)
       = (Inr \<lparr>r_id = ''r1'', r_emoji = ''thumbsup'', r_messageId = ''m1'', r_userId = ''B''\<rparr>,
          db server_reacted)
   \<and> removeReaction ''m1'' ''C'' ''thumbsup'' (db server_reacted)
       = (Inl ''Failed to remove reaction'', db server_reacted)
   \<and> outbox (on_remove_reaction sockC ''m1'' ''thumbsup'' server_reacted) ''s3''
       = outbox server_reacted ''s3'' @ [Error ''Failed to remove reaction'']
   \<and> outbox (on_remove_reaction sockC ''m1'' ''thumbsup'' server_reacted) ''s1''
       = outbox server_reacted ''s1''"
proof -
  have h: "reactions_unique (db server_reacted)"
    by (simp add: reactions_unique_def workspace_defs handler_defs io_defs service_defs Let_def)
  have f1: "find (reaction_is ''m1'' ''B'' ''thumbsup'') (reactions (db server_reacted))
              = Some \<lparr>r_id = ''r1'', r_emoji = ''thumbsup'', r_messageId = ''m1'',
                       r_userId = ''B''\<rparr>"
    by (simp add: workspace_defs handler_defs io_defs service_defs Let_def)
  have f2: "find (reaction_is ''m1'' ''C'' ''thumbsup'') (reactions (db server_reacted)) = None"
    by (simp add: workspace_defs handler_defs io_defs service_defs Let_def)
  have f3: "find (reaction_is ''m1'' (userId sockC) ''thumbsup'') (reactions (db server_reacted))
              = None"
    using f2 by (simp add: sockC_def)
  have ids: "sock_id sockC = ''s3''" by (simp add: sockC_def)
  from reaction_add_is_idempotent_remove_of_missing_fails
         [OF h, where m = "''m1''" and u = "''B''" and e = "''thumbsup''" and newId = "''r2''"] f1
  have a: "addReaction ''m1'' ''B'' ''thumbsup'' ''r2'' (db server_reacted)
       = (Inr \<lparr>r_id = ''r1'', r_emoji = ''thumbsup'', r_messageId = ''m1'', r_userId = ''B''\<rparr>,
          db server_reacted)"
    by simp
  from reaction_add_is_idempotent_remove_of_missing_fails
         [OF h, where m = "''m1''" and u = "''C''" and e = "''thumbsup''" and newId = "''r2''"
            and socket = sockC and st = server_reacted and s = "''s3''"] f2 f3 ids
  have b: "removeReaction ''m1'' ''C'' ''thumbsup'' (db server_reacted)
       = (Inl ''Failed to remove reaction'', db server_reacted)"
    and c: "outbox (on_remove_reaction sockC ''m1'' ''thumbsup'' server_reacted) ''s3''
       = outbox server_reacted ''s3'' @ [Error ''Failed to remove reaction'']"
    by simp_all
  from reaction_add_is_idempotent_remove_of_missing_fails
         [OF h, where m = "''m1''" and u = "''C''" and e = "''thumbsup''" and newId = "''r2''"
            and socket = sockC and st = server_reacted and s = "''s1''"] f3 ids
  have e: "outbox (on_remove_reaction sockC ''m1'' ''thumbsup'' server_reacted) ''s1''
       = outbox server_reacted ''s1''"
    by simp
  from h a b c e show ?thesis by blast
qed

text \<open>
  Nobody has reacted to the message yet and B asks to remove a thumbsup: the service
  fails, and the listener answers B with an error event.
\<close>

theorem remove_of_missing_reaction_is_an_error:
  "find (reaction_is ''m1'' ''B'' ''thumbsup'') (reactions (db server_hello)) = None
   \<and> fst (removeReaction ''m1'' ''B'' ''thumbsup'' (db server_hello))
       = Inl ''Failed to remove reaction''
   \<and> outbox (on_remove_reaction sockB ''m1'' ''thumbsup'' server_hello) ''s2''
       = outbox server_hello ''s2'' @ [Error ''Failed to remove reaction'']"
  by (simp add: workspace_defs handler_defs io_defs service_defs Let_def)

text \<open>
  C6.  The reaction events go out through \<^verbatim>\<open>io.emit\<close>.  C is not a member of the
  channel general and its connection is not in the room of the channel; B reacts to a
  message of that channel and then removes the reaction, and C receives both events.
\<close>

theorem reaction_events_reach_connection_outside_the_room:
  "\<not> canUserAccessChannel ''C'' ''general'' (db server_hello)
   \<and> (''s3'', ''general'') \<notin> rooms server_hello
   \<and> map m_channelId (filter (\<lambda>x. m_id x = ''m1'') (messages (db server_hello)))
       = [Some ''general'']
   \<and> outbox (on_remove_reaction sockB ''m1'' ''thumbsup''
               (on_add_reaction sockB ''m1'' ''thumbsup'' ''r1'' server_hello)) ''s3''
       = outbox server_hello ''s3'' @
         [ReactionAdded ''m1'' \<lparr>r_id = ''r1'', r_emoji = ''thumbsup'', r_messageId = ''m1'',
                                 r_userId = ''B''\<rparr>,
          ReactionRemoved ''m1'' ''B'' ''thumbsup'']"
  by (simp add: workspace_defs handler_defs io_defs service_defs Let_def)

subsection \<open>Signaling relay\<close>

text \<open>
  C7, as the code has it.  Each of the three signaling listeners leaves the store alone and
  delivers one event, carrying the huddle id, the sender and the payload as it came, to
  the connections in the room named by the target other than the sender's own connection.
  The store plays no part: whatever the participant rows say, the same events go out, so
  a sender who is not a participant of the named huddle is relayed as well.
\<close>

theorem signaling_relay_is_point_to_room_and_ungated:
  "db (on_webrtc_offer socket huddleId targetUserId payload st) = db st
   \<and> db (on_webrtc_answer socket huddleId targetUserId payload st) = db st
   \<and> db (on_webrtc_ice_candidate socket huddleId targetUserId payload st) = db st
   \<and> outbox (on_webrtc_offer socket huddleId targetUserId payload st) s
       = (if s \<noteq> sock_id socket \<and> conns st s \<noteq> None \<and> (s, targetUserId) \<in> rooms st
          then outbox st s @ [WebrtcOffer huddleId (userId socket) payload] else outbox st s)
   \<and> outbox (on_webrtc_answer socket huddleId targetUserId payload st) s
       = (if s \<noteq> sock_id socket \<and> conns st s \<noteq> None \<and> (s, targetUserId) \<in> rooms st
          then outbox st s @ [WebrtcAnswer huddleId (userId socket) payload] else outbox st s)
   \<and> outbox (on_webrtc_ice_candidate socket huddleId targetUserId payload st) s
       = (if s \<noteq> sock_id socket \<and> conns st s \<noteq> None \<and> (s, targetUserId) \<in> rooms st
          then outbox st s @ [WebrtcIceCandidate huddleId (userId socket) payload]
          else outbox st s)
   \<and> outbox (on_webrtc_offer socket huddleId targetUserId payload (st\<lparr>db := d\<rparr>))
       = outbox (on_webrtc_offer socket huddleId targetUserId payload st)
   \<and> outbox (on_webrtc_answer socket huddleId targetUserId payload (st\<lparr>db := d\<rparr>))
       = outbox (on_webrtc_answer socket huddleId targetUserId payload st)
   \<and> outbox (on_webrtc_ice_candidate socket huddleId targetUserId payload (st\<lparr>db := d\<rparr>))
       = outbox (on_webrtc_ice_candidate socket huddleId targetUserId payload st)"
  by (simp add: on_webrtc_offer_def on_webrtc_answer_def on_webrtc_ice_candidate_def
        socket_to_emit_def deliver_def cong: if_cong)

text \<open>
  C is not a participant of the huddle h1 and sends an offer for it to A: the connection
  of A receives the offer.
\<close>

theorem relay_from_non_participant_is_delivered:
  "find (participant_is ''h1'' ''C'') (huddleParticipants (db server_huddle)) = None
   \<and> outbox (on_webrtc_offer sockC ''h1'' ''A'' ''sdp'' server_huddle) ''s1''
       = outbox server_huddle ''s1'' @ [WebrtcOffer ''h1'' ''C'' ''sdp'']"
  by (simp add: workspace_defs handler_defs io_defs service_defs Let_def)

subsection \<open>Presence on disconnect\<close>

lemma user_update_users:
  "user_update uid status now d = Some d' \<Longrightarrow>
     map u_id (users d') = map u_id (users d)
     \<and> (\<forall>u\<in>set (users d'). u_id u = uid \<longrightarrow> u_status u = status)
     \<and> huddles d' = huddles d \<and> huddleParticipants d' = huddleParticipants d"
  by (auto simp: user_update_def updateMany_def split: if_splits)

text \<open>
  C8, as the code has it.  When a connection of a known user disconnects, the status of the
  user becomes offline and every other live connection receives the status change, whether
  or not the user has other live connections: the listener counts no connections.
\<close>

theorem disconnect_sets_offline_whatever_else_is_connected:
  assumes "userId socket \<in> set (map u_id (users (db st)))"
  shows "userId socket \<in> set (map u_id (users (db (on_disconnect socket now st))))
       \<and> (\<forall>u\<in>set (users (db (on_disconnect socket now st))).
             u_id u = userId socket \<longrightarrow> u_status u = ''offline'')
       \<and> (\<forall>s. s \<noteq> sock_id socket \<and> conns st s \<noteq> None \<longrightarrow>
             outbox (on_disconnect socket now st) s
               = outbox st s @ [UserStatusChanged (userId socket) ''offline''])"
proof -
  from assms obtain d' where
    upd: "user_update (userId socket) ''offline'' now (db st) = Some d'"
    by (auto simp: user_update_def)
  note facts = user_update_users [OF upd]
  have "db (on_disconnect socket now st) = d'"
    using upd by (simp add: on_disconnect_def Let_def socket_broadcast_emit_def deliver_def)
  moreover have "\<forall>s. s \<noteq> sock_id socket \<and> conns st s \<noteq> None \<longrightarrow>
             outbox (on_disconnect socket now st) s
               = outbox st s @ [UserStatusChanged (userId socket) ''offline'']"
    using upd by (simp add: on_disconnect_def Let_def socket_broadcast_emit_def deliver_def)
  ultimately show ?thesis using facts assms by simp
qed

text \<open>
  A is connected on two devices; the first one disconnects.  The second one is still live
  and is told, like everyone else, that A is offline.
\<close>

theorem disconnect_sets_offline_whatever_else_is_connected_witness:
  "userId sockA \<in> set (map u_id (users (db server_joined)))
   \<and> conns (on_disconnect sockA 5 server_joined) ''s4'' = Some ''A''
   \<and> outbox (on_disconnect sockA 5 server_joined) ''s4''
       = outbox server_joined ''s4'' @ [UserStatusChanged (userId sockA) ''offline'']"
proof -
  have h: "userId sockA \<in> set (map u_id (users (db server_joined)))"
    by (simp add: workspace_defs handler_defs io_defs service_defs Let_def)
  have c: "''s4'' \<noteq> sock_id sockA \<and> conns server_joined ''s4'' \<noteq> None"
    by (simp add: workspace_defs handler_defs io_defs service_defs Let_def)
  have c': "conns (on_disconnect sockA 5 server_joined) ''s4'' = Some ''A''"
    by (simp add: workspace_defs handler_defs io_defs service_defs Let_def)
  from disconnect_sets_offline_whatever_else_is_connected [OF h, of 5] c
  have "outbox (on_disconnect sockA 5 server_joined) ''s4''
       = outbox server_joined ''s4'' @ [UserStatusChanged (userId sockA) ''offline'']"
    by blast
  with h c' show ?thesis by blast
qed

text \<open>
  The same disconnect: A still has a live connection, and the stored status of A went
  from online to offline.
\<close>

theorem disconnect_with_another_live_connection_goes_offline:
  "conns (on_disconnect sockA 5 server_joined) ''s4'' = Some ''A''
   \<and> map u_status (filter (\<lambda>u. u_id u = ''A'') (users (db server_joined))) = [''online'']
   \<and> map u_status (filter (\<lambda>u. u_id u = ''A'')
        (users (db (on_disconnect sockA 5 server_joined)))) = [''offline'']
   \<and> outbox (on_disconnect sockA 5 server_joined) ''s2''
       = outbox server_joined ''s2'' @ [UserStatusChanged ''A'' ''offline'']"
  by (simp add: workspace_defs handler_defs io_defs service_defs Let_def)

subsection \<open>Ending and joining a huddle\<close>

lemma find_updateMany:
  assumes "\<And>x. Q (f x) = Q x"
  shows "find Q (updateMany P f xs) = map_option (\<lambda>x. if P x then f x else x) (find Q xs)"
  by (induction xs) (simp_all add: updateMany_def assms)

lemma updateMany_replace_mem:
  "x \<in> set xs \<Longrightarrow> y \<in> set (updateMany (\<lambda>z. k z = k x) (\<lambda>z. y) xs)"
  by (induction xs) (auto simp: updateMany_def)

lemma endHuddle_Inr:
  assumes "fst (endHuddle huddleId creator now d) = Inr ()"
  shows "huddleId \<in> set (map h_id (huddles d))
       \<and> snd (endHuddle huddleId creator now d)
           = d\<lparr>huddles := updateMany (\<lambda>h. h_id h = huddleId) (huddle_end_row now) (huddles d),
               huddleParticipants :=
                 updateMany (active_in huddleId) (mark_left now) (huddleParticipants d)\<rparr>"
proof (cases "find (\<lambda>h. h_id h = huddleId) (huddles d)")
  case None
  with assms show ?thesis by (simp add: endHuddle_def)
next
  case (Some huddle)
  then have "huddle \<in> set (huddles d)" and "h_id huddle = huddleId"
    by (auto simp: find_Some_iff)
  then have "huddleId \<in> set (map h_id (huddles d))" by force
  with assms Some show ?thesis
    by (simp add: endHuddle_def split: if_splits)
qed

lemma updateMany_mem:
  "y \<in> set (updateMany P f xs) \<Longrightarrow> \<exists>x\<in>set xs. y = (if P x then f x else x)"
  by (auto simp: updateMany_def)

lemma end_row_simps:
  "h_id (huddle_end_row now h) = h_id h" "h_status (huddle_end_row now h) = ''ended''"
  by (simp_all add: huddle_end_row_def)

lemma mark_left_simps:
  "hp_id (mark_left now p) = hp_id p" "hp_huddleId (mark_left now p) = hp_huddleId p"
  "hp_userId (mark_left now p) = hp_userId p" "hp_leftAt (mark_left now p) = Some now"
  by (simp_all add: mark_left_def)

lemma ended_rows_ids:
  "map h_id (updateMany (\<lambda>h. h_id h = huddleId) (huddle_end_row now) hs) = map h_id hs"
  by (induction hs) (simp_all add: updateMany_def end_row_simps)

lemma ended_rows_status:
  assumes "h \<in> set (updateMany (\<lambda>h. h_id h = huddleId) (huddle_end_row now) hs)"
      and "h_id h = huddleId"
  shows "h_status h = ''ended''"
proof -
  from updateMany_mem [OF assms(1)] obtain x
    where h: "h = (if h_id x = huddleId then huddle_end_row now x else x)" by blast
  show ?thesis
  proof (cases "h_id x = huddleId")
    case True
    with h show ?thesis by (simp add: end_row_simps)
  next
    case False
    with h assms(2) show ?thesis by simp
  qed
qed

lemma left_rows_ids:
  "map hp_id (updateMany (active_in huddleId) (mark_left now) ps) = map hp_id ps"
  by (induction ps) (simp_all add: updateMany_def mark_left_simps)

lemma left_rows_left:
  assumes "p \<in> set (updateMany (active_in huddleId) (mark_left now) ps)"
      and "hp_huddleId p = huddleId"
  shows "hp_leftAt p \<noteq> None"
proof -
  from updateMany_mem [OF assms(1)] obtain x
    where p: "p = (if active_in huddleId x then mark_left now x else x)" by blast
  show ?thesis
  proof (cases "active_in huddleId x")
    case True
    with p show ?thesis by (simp add: mark_left_simps)
  next
    case False
    with p have "p = x" by simp
    with False assms(2) show ?thesis by (simp add: active_in_def)
  qed
qed

lemma joinHuddle_after_left:
  assumes "\<forall>p\<in>set (huddleParticipants d). hp_huddleId p = huddleId \<longrightarrow> hp_leftAt p \<noteq> None"
      and "find (participant_is huddleId u) (huddleParticipants d) \<noteq> None
           \<or> (huddleId \<in> set (map h_id (huddles d)) \<and> u \<in> set (map u_id (users d))
               \<and> newId \<notin> set (map hp_id (huddleParticipants d)))"
  shows "\<exists>p. fst (joinHuddle huddleId u now newId d) = Inr p
             \<and> participant_is huddleId u p \<and> hp_leftAt p = None
             \<and> p \<in> set (huddleParticipants (snd (joinHuddle huddleId u now newId d)))
             \<and> huddles (snd (joinHuddle huddleId u now newId d)) = huddles d"
proof (cases "find (participant_is huddleId u) (huddleParticipants d)")
  case None
  define row where "row = \<lparr>hp_id = newId, hp_huddleId = huddleId, hp_userId = u,
                        hp_joinedAt = now, hp_leftAt = None, hp_audioMuted = False,
                        hp_videoOn = False\<rparr>"
  from assms(2) None
  have "huddleParticipant_create newId huddleId u now d
          = Some (row, d\<lparr>huddleParticipants := huddleParticipants d @ [row]\<rparr>)"
    by (simp add: huddleParticipant_create_def row_def Let_def)
  with None have "joinHuddle huddleId u now newId d
          = (Inr row, d\<lparr>huddleParticipants := huddleParticipants d @ [row]\<rparr>)"
    by (simp add: joinHuddle_def)
  moreover have "participant_is huddleId u row" and "hp_leftAt row = None"
    by (simp_all add: row_def participant_is_def)
  ultimately show ?thesis by simp
next
  case (Some x)
  define p where "p = x\<lparr>hp_leftAt := None, hp_joinedAt := now, hp_audioMuted := False,
                         hp_videoOn := False\<rparr>"
  from Some have mem: "x \<in> set (huddleParticipants d)" and px: "participant_is huddleId u x"
    by (auto simp: find_Some_iff)
  with assms(1) obtain t where left: "hp_leftAt x = Some t"
    by (auto simp: participant_is_def)
  from Some left have "joinHuddle huddleId u now newId d
          = (Inr p, d\<lparr>huddleParticipants :=
                         updateMany (\<lambda>y. hp_id y = hp_id x) (\<lambda>y. p) (huddleParticipants d)\<rparr>)"
    by (simp add: joinHuddle_def p_def Let_def)
  moreover from mem have "p \<in> set (updateMany (\<lambda>y. hp_id y = hp_id x) (\<lambda>y. p)
                                      (huddleParticipants d))"
    by (rule updateMany_replace_mem)
  moreover from px have "participant_is huddleId u p" and "hp_leftAt p = None"
    by (simp_all add: p_def participant_is_def)
  ultimately show ?thesis by simp
qed

text \<open>
  C2, as the code has it.  When the creator ends a huddle, the huddle row is set to ended
  and every participant row of the huddle carries a leave time.  A later join does not
  fail: \<^verbatim>\<open>joinHuddle\<close> never reads the huddle row, so a user who was a participant
  is reactivated, and any other known user gets a new row; the joiner is an active
  participant of a huddle that stays ended.
\<close>

theorem ended_huddle_still_accepts_joins:
  assumes "fst (endHuddle huddleId creator now d) = Inr ()"
  shows "huddleId \<in> set (map h_id (huddles (snd (endHuddle huddleId creator now d))))
       \<and> (\<forall>h\<in>set (huddles (snd (endHuddle huddleId creator now d))).
             h_id h = huddleId \<longrightarrow> h_status h = ''ended'')
       \<and> (\<forall>p\<in>set (huddleParticipants (snd (endHuddle huddleId creator now d))).
             hp_huddleId p = huddleId \<longrightarrow> hp_leftAt p \<noteq> None)
       \<and> (find (participant_is huddleId u) (huddleParticipants d) \<noteq> None
            \<or> (u \<in> set (map u_id (users d)) \<and> newId \<notin> set (map hp_id (huddleParticipants d)))
          \<longrightarrow> (\<exists>p. fst (joinHuddle huddleId u now' newId
                            (snd (endHuddle huddleId creator now d))) = Inr p
                   \<and> participant_is huddleId u p \<and> hp_leftAt p = None
                   \<and> p \<in> set (huddleParticipants (snd (joinHuddle huddleId u now' newId
                            (snd (endHuddle huddleId creator now d)))))
                   \<and> huddles (snd (joinHuddle huddleId u now' newId
                            (snd (endHuddle huddleId creator now d))))
                       = huddles (snd (endHuddle huddleId creator now d))))"
proof -
  define d' where "d' = snd (endHuddle huddleId creator now d)"
  from endHuddle_Inr [OF assms]
  have ex: "huddleId \<in> set (map h_id (huddles d))"
    and d': "d' = d\<lparr>huddles := updateMany (\<lambda>h. h_id h = huddleId) (huddle_end_row now) (huddles d),
               huddleParticipants :=
                 updateMany (active_in huddleId) (mark_left now) (huddleParticipants d)\<rparr>"
    by (simp_all add: d'_def)
  have "map h_id (huddles d') = map h_id (huddles d)"
    by (simp add: d' ended_rows_ids)
  with ex have a: "huddleId \<in> set (map h_id (huddles d'))"
    by (simp only:)
  have b: "\<forall>h\<in>set (huddles d'). h_id h = huddleId \<longrightarrow> h_status h = ''ended''"
  proof (intro ballI impI)
    fix h assume "h \<in> set (huddles d')" and "h_id h = huddleId"
    then show "h_status h = ''ended''"
      by (simp add: d' ended_rows_status)
  qed
  have c: "\<forall>p\<in>set (huddleParticipants d'). hp_huddleId p = huddleId \<longrightarrow> hp_leftAt p \<noteq> None"
  proof (intro ballI impI)
    fix p assume "p \<in> set (huddleParticipants d')" and "hp_huddleId p = huddleId"
    then show "hp_leftAt p \<noteq> None"
      by (simp add: d' left_rows_left)
  qed
  have fnd: "find (participant_is huddleId u) (huddleParticipants d) \<noteq> None
               \<Longrightarrow> find (participant_is huddleId u) (huddleParticipants d') \<noteq> None"
    by (simp add: d' find_updateMany participant_is_def mark_left_simps)
  have ids: "map hp_id (huddleParticipants d') = map hp_id (huddleParticipants d)"
    and us: "users d' = users d"
    by (simp_all add: d' left_rows_ids)
  have e: "\<exists>p. fst (joinHuddle huddleId u now' newId d') = Inr p
             \<and> participant_is huddleId u p \<and> hp_leftAt p = None
             \<and> p \<in> set (huddleParticipants (snd (joinHuddle huddleId u now' newId d')))
             \<and> huddles (snd (joinHuddle huddleId u now' newId d')) = huddles d'"
    if "find (participant_is huddleId u) (huddleParticipants d) \<noteq> None
            \<or> (u \<in> set (map u_id (users d)) \<and> newId \<notin> set (map hp_id (huddleParticipants d)))"
  proof (rule joinHuddle_after_left [OF c])
    from that fnd a show "find (participant_is huddleId u) (huddleParticipants d') \<noteq> None
           \<or> (huddleId \<in> set (map h_id (huddles d')) \<and> u \<in> set (map u_id (users d'))
               \<and> newId \<notin> set (map hp_id (huddleParticipants d')))"
      unfolding ids us by blast
  qed
  from a b c e show ?thesis unfolding d'_def by blast
qed

text \<open>
  A ends the huddle h1 in which B takes part; B joins again and is an active participant.
\<close>

theorem ended_huddle_still_accepts_joins_witness:
  "fst (endHuddle ''h1'' ''A'' 7 (db server_huddle)) = Inr ()
   \<and> find (participant_is ''h1'' ''B'') (huddleParticipants (db server_huddle)) \<noteq> None
   \<and> (\<exists>p. fst (joinHuddle ''h1'' ''B'' 9 ''p3''
                   (snd (endHuddle ''h1'' ''A'' 7 (db server_huddle)))) = Inr p
            \<and> participant_is ''h1'' ''B'' p \<and> hp_leftAt p = None)"
proof -
  have h1: "fst (endHuddle ''h1'' ''A'' 7 (db server_huddle)) = Inr ()"
    by (simp add: workspace_defs handler_defs io_defs service_defs Let_def)
  have h2: "find (participant_is ''h1'' ''B'') (huddleParticipants (db server_huddle)) \<noteq> None"
    by (simp add: workspace_defs handler_defs io_defs service_defs Let_def)
  from ended_huddle_still_accepts_joins [OF h1, of "''B''" "''p3''" 9] h2
  have "\<exists>p. fst (joinHuddle ''h1'' ''B'' 9 ''p3''
                   (snd (endHuddle ''h1'' ''A'' 7 (db server_huddle)))) = Inr p
            \<and> participant_is ''h1'' ''B'' p \<and> hp_leftAt p = None"
    by blast
  with h1 h2 show ?thesis by blast
qed

text \<open>
  After A has ended the huddle, B sends join-huddle: the service returns the reactivated
  row of B, and B receives the roster, not an error.
\<close>

theorem join_of_ended_huddle_succeeds:
  "map h_status (huddles (db server_ended)) = [''ended'']
   \<and> fst (joinHuddle ''h1'' ''B'' 9 ''p3'' (db server_ended))
       = Inr \<lparr>hp_id = ''p2'', hp_huddleId = ''h1'', hp_userId = ''B'', hp_joinedAt = 9,
               hp_leftAt = None, hp_audioMuted = False, hp_videoOn = False\<rparr>
   \<and> outbox (on_join_huddle sockB ''h1'' 9 ''p3'' server_ended) ''s2''
       = outbox server_ended ''s2'' @
         [HuddleParticipants ''h1''
            [\<lparr>hp_id = ''p2'', hp_huddleId = ''h1'', hp_userId = ''B'', hp_joinedAt = 9,
               hp_leftAt = None, hp_audioMuted = False, hp_videoOn = False\<rparr>]]"
  by (simp add: workspace_defs handler_defs io_defs service_defs Let_def)

subsection \<open>Disconnect of a huddle participant\<close>

lemma leaveHuddle_rows:
  "\<forall>p\<in>set (huddleParticipants (snd (leaveHuddle huddleId u now d))).
      participant_is huddleId u p \<longrightarrow> hp_leftAt p \<noteq> None"
proof (intro ballI impI)
  fix p
  assume mem: "p \<in> set (huddleParticipants (snd (leaveHuddle huddleId u now d)))"
     and is_p: "participant_is huddleId u p"
  let ?P = "\<lambda>x. participant_is huddleId u x \<and> hp_leftAt x = None"
  from mem have "p \<in> set (updateMany ?P (mark_left now) (huddleParticipants d))"
    by (simp add: leaveHuddle_def Let_def split: if_splits)
  from updateMany_mem [OF this] obtain x
    where p: "p = (if ?P x then mark_left now x else x)" by blast
  show "hp_leftAt p \<noteq> None"
  proof (cases "?P x")
    case True
    with p show ?thesis by (simp add: mark_left_simps)
  next
    case False
    with p have "p = x" by simp
    with False is_p show ?thesis by simp
  qed
qed

text \<open>
  C9, as the code has it.  A disconnect performs no leave: the participant rows and the
  huddle rows stay as they are, and a connection receives at most the status change of
  the user, never a participant-left event.  The participant is marked as left, and the
  other connections in the room of the huddle receive \<^verbatim>\<open>user-left-huddle\<close>, when
  the explicit leave-huddle request succeeds.
\<close>

theorem disconnect_performs_no_huddle_leave:
  "huddleParticipants (db (on_disconnect socket now st)) = huddleParticipants (db st)
   \<and> huddles (db (on_disconnect socket now st)) = huddles (db st)
   \<and> (outbox (on_disconnect socket now st) s = outbox st s
        \<or> outbox (on_disconnect socket now st) s
            = outbox st s @ [UserStatusChanged (userId socket) ''offline''])
   \<and> (fst (leaveHuddle huddleId (userId socket) now (db st)) = Inr () \<longrightarrow>
        (\<forall>p\<in>set (huddleParticipants (db (on_leave_huddle socket huddleId now st))).
            participant_is huddleId (userId socket) p \<longrightarrow> hp_leftAt p \<noteq> None)
        \<and> (\<forall>s'. s' \<noteq> sock_id socket \<and> conns st s' \<noteq> None
                  \<and> (s', huddle_room huddleId) \<in> rooms st \<longrightarrow>
              outbox (on_leave_huddle socket huddleId now st) s'
                = outbox st s' @ [UserLeftHuddle huddleId (userId socket)]))"
proof -
  have a: "huddleParticipants (db (on_disconnect socket now st)) = huddleParticipants (db st)
         \<and> huddles (db (on_disconnect socket now st)) = huddles (db st)"
    by (auto simp: on_disconnect_def Let_def socket_broadcast_emit_def deliver_def
          user_update_def split: option.splits if_splits)
  have b: "outbox (on_disconnect socket now st) s = outbox st s
        \<or> outbox (on_disconnect socket now st) s
            = outbox st s @ [UserStatusChanged (userId socket) ''offline'']"
    by (simp add: on_disconnect_def Let_def socket_broadcast_emit_def deliver_def
          split: option.splits)
  have c: "(\<forall>p\<in>set (huddleParticipants (db (on_leave_huddle socket huddleId now st))).
            participant_is huddleId (userId socket) p \<longrightarrow> hp_leftAt p \<noteq> None)
        \<and> (\<forall>s'. s' \<noteq> sock_id socket \<and> conns st s' \<noteq> None
                  \<and> (s', huddle_room huddleId) \<in> rooms st \<longrightarrow>
              outbox (on_leave_huddle socket huddleId now st) s'
                = outbox st s' @ [UserLeftHuddle huddleId (userId socket)])"
    if ok: "fst (leaveHuddle huddleId (userId socket) now (db st)) = Inr ()"
  proof -
    obtain d' where l: "leaveHuddle huddleId (userId socket) now (db st) = (Inr (), d')"
      using ok by (cases "leaveHuddle huddleId (userId socket) now (db st)") simp
    then have d': "d' = snd (leaveHuddle huddleId (userId socket) now (db st))" by simp
    have "db (on_leave_huddle socket huddleId now st) = d'"
      using l by (simp add: on_leave_huddle_def socket_to_emit_def socket_leave_def deliver_def)
    moreover have "\<forall>s'. s' \<noteq> sock_id socket \<and> conns st s' \<noteq> None
                  \<and> (s', huddle_room huddleId) \<in> rooms st \<longrightarrow>
              outbox (on_leave_huddle socket huddleId now st) s'
                = outbox st s' @ [UserLeftHuddle huddleId (userId socket)]"
      using l by (simp add: on_leave_huddle_def socket_to_emit_def socket_leave_def deliver_def)
    ultimately show ?thesis using leaveHuddle_rows [of huddleId "userId socket" now "db st"]
      by (simp add: d')
  qed
  from a b c show ?thesis by blast
qed

text \<open>
  B leaves the huddle h1 explicitly: A is told.  B disconnects instead: the participant
  rows are what they were.
\<close>

theorem disconnect_performs_no_huddle_leave_witness:
  "fst (leaveHuddle ''h1'' (userId sockB) 5 (db server_huddle)) = Inr ()
   \<and> (''s1'', huddle_room ''h1'') \<in> rooms server_huddle
   \<and> outbox (on_leave_huddle sockB ''h1'' 5 server_huddle) ''s1''
       = outbox server_huddle ''s1'' @ [UserLeftHuddle ''h1'' (userId sockB)]
   \<and> huddleParticipants (db (on_disconnect sockB 5 server_huddle))
       = huddleParticipants (db server_huddle)"
proof -
  have h: "fst (leaveHuddle ''h1'' (userId sockB) 5 (db server_huddle)) = Inr ()"
    by (simp add: workspace_defs handler_defs io_defs service_defs Let_def)
  have c: "''s1'' \<noteq> sock_id sockB \<and> conns server_huddle ''s1'' \<noteq> None
           \<and> (''s1'', huddle_room ''h1'') \<in> rooms server_huddle"
    by (simp add: workspace_defs handler_defs io_defs service_defs Let_def)
  note t = disconnect_performs_no_huddle_leave [of sockB 5 server_huddle "''s1''" "''h1''"]
  from t h c have "outbox (on_leave_huddle sockB ''h1'' 5 server_huddle) ''s1''
       = outbox server_huddle ''s1'' @ [UserLeftHuddle ''h1'' (userId sockB)]"
    by blast
  moreover from t have "huddleParticipants (db (on_disconnect sockB 5 server_huddle))
       = huddleParticipants (db server_huddle)"
    by blast
  ultimately show ?thesis using h c by blast
qed

text \<open>
  B, a participant of h1, disconnects without leaving: the row of B has no leave time, the
  huddle is active, and A, still in the room of the huddle, has received the status
  change of B and nothing else.
\<close>

theorem disconnect_of_participant_leaves_row_active:
  "map hp_leftAt (filter (participant_is ''h1'' ''B'')
       (huddleParticipants (db (on_disconnect sockB 5 server_huddle)))) = [None]
   \<and> map h_status (huddles (db (on_disconnect sockB 5 server_huddle))) = [''active'']
   \<and> conns (on_disconnect sockB 5 server_huddle) ''s1'' = Some ''A''
   \<and> (''s1'', huddle_room ''h1'') \<in> rooms (on_disconnect sockB 5 server_huddle)
   \<and> outbox (on_disconnect sockB 5 server_huddle) ''s1''
       = outbox server_huddle ''s1'' @ [UserStatusChanged ''B'' ''offline'']"
  by (simp add: workspace_defs handler_defs io_defs service_defs Let_def)

end
